theory Spec2Isabelle
  imports Main "HOL-Library.Sublist"
begin

section \<open>Webhook payloads\<close>

text \<open>
  The handlers of \<^verbatim>\<open>marvin/status.py\<close> read a \<^verbatim>\<open>sansio.Event\<close>: the name of the
  event and the decoded JSON payload \<^verbatim>\<open>event.data\<close>. The payload is a dictionary; its
  top-level keys are optional fields here, so that a subscript on a missing key is the
  \<^verbatim>\<open>KeyError\<close> of the source. The nested objects carry the fields the handlers read.
  Identifiers are Python integers. A review body may be \<^verbatim>\<open>null\<close>. The handlers pass
  an issue on as a whole; its \<^verbatim>\<open>number\<close> is what identifies it on the tracker.
\<close>

record user =
  id' :: int

record label =
  name :: string

record issue =
  number :: int
  user :: user
  labels :: "label list"
  comments_url :: string

text \<open>
  A comment and a review are both passed to the command handlers as \<^verbatim>\<open>comment\<close>;
  the handlers read only \<^verbatim>\<open>comment["user"]["id"]\<close>, the common part below.
\<close>

record authored =
  user :: user

record comment = authored +
  body :: string

record review = authored +
  body :: "string option"
  state :: string

record installation =
  id' :: int

record event_data =
  action :: string
  issue :: "issue option"
  pull_request :: "issue option"
  comment :: "comment option"
  review :: "review option"
  installation :: "installation option"

record event =
  event :: string
  data :: event_data

section \<open>Effects and outcomes\<close>

text \<open>
  A handler is a coroutine whose observable behaviour is the sequence of calls it makes
  on its collaborators: \<^verbatim>\<open>gh_util.set_issue_status(issue, status, gh, token)\<close>,
  \<^verbatim>\<open>gh.post(url, data={"body": text}, oauth_token=token)\<close>, \<^verbatim>\<open>asyncio.sleep(n)\<close> and
  \<^verbatim>\<open>runner.run_soon(gh, token)\<close>. The outcome of a handler is the list of calls made, in
  order, and the exception that ended it, if any. The API handle and the token are passed
  through unchanged and are left out. The remote calls themselves are taken to return.
\<close>

type_synonym runner = nat

datatype effect =
    SetIssueStatus issue string
  | Post string string
  | Sleep nat
  | RunSoon runner

datatype error =
    KeyError string
  | KeyErrorId int

type_synonym outcome = "effect list \<times> error option"

definition done_with :: "effect list \<Rightarrow> outcome" where
  "done_with es = (es, None)"

definition raised :: "effect list \<Rightarrow> error \<Rightarrow> outcome" where
  "raised es e = (es, Some e)"

definition label_names :: "issue \<Rightarrow> string set" where
  "label_names i = set (map name (labels i))"

section \<open>Event handlers\<close>

definition pull_request_ready_for_review :: "event \<Rightarrow> outcome" where
  "pull_request_ready_for_review ev =
    (case pull_request (data ev) of
       None \<Rightarrow> raised [] (KeyError ''pull_request'')
     | Some i \<Rightarrow>
         if ''needs_merger'' \<notin> label_names i
            \<and> ''awaiting_reviewer'' \<notin> label_names i
            \<and> ''awaiting_merger'' \<notin> label_names i
         then done_with [SetIssueStatus i ''needs_reviewer'']
         else done_with [])"

definition pull_request_synchronize :: "event \<Rightarrow> outcome" where
  "pull_request_synchronize ev =
    (case pull_request (data ev) of
       None \<Rightarrow> raised [] (KeyError ''pull_request'')
     | Some i \<Rightarrow>
         if ''needs_merger'' \<in> label_names i
            \<or> ''awaiting_changes'' \<in> label_names i
            \<or> ''awaiting_merger'' \<in> label_names i
         then done_with [SetIssueStatus i ''awaiting_reviewer'']
         else done_with [])"

definition pull_request_assigned :: "event \<Rightarrow> outcome" where
  "pull_request_assigned ev =
    (case pull_request (data ev) of
       None \<Rightarrow> raised [] (KeyError ''pull_request'')
     | Some i \<Rightarrow>
         if ''needs_reviewer'' \<in> label_names i
         then done_with [SetIssueStatus i ''awaiting_reviewer'']
         else done_with [])"

text \<open>
  The command scanner \<^verbatim>\<open>command_router.find_commands\<close> is a parameter of the two
  handlers that consult it: a function from a text to the commands found in it.
\<close>

type_synonym scanner = "string \<Rightarrow> string list"

definition issue_comment_event :: "scanner \<Rightarrow> event \<Rightarrow> outcome" where
  "issue_comment_event find_cmds ev =
    (case comment (data ev) of
       None \<Rightarrow> raised [] (KeyError ''comment'')
     | Some c \<Rightarrow>
         if length (find_cmds (comment.body c)) > 0 then done_with []
         else
           (case (case issue (data ev) of Some i \<Rightarrow> Some i
                                         | None \<Rightarrow> pull_request (data ev)) of
              None \<Rightarrow> raised [] (KeyError ''pull_request'')
            | Some i \<Rightarrow>
                let by_pr_author = (user.id' (issue.user i) = user.id' (authored.user c)) in
                if by_pr_author \<and> ''awaiting_changes'' \<in> label_names i
                then done_with [SetIssueStatus i ''awaiting_reviewer'']
                else if \<not> by_pr_author \<and> ''needs_reviewer'' \<in> label_names i
                then done_with [SetIssueStatus i ''awaiting_reviewer'']
                else done_with []))"

definition pull_request_review_submitted :: "scanner \<Rightarrow> event \<Rightarrow> outcome" where
  "pull_request_review_submitted find_cmds ev =
    (case review (data ev) of
       None \<Rightarrow> raised [] (KeyError ''review'')
     | Some r \<Rightarrow>
         if (case review.body r of None \<Rightarrow> False
                                  | Some b \<Rightarrow> length (find_cmds b) > 0)
         then done_with []
         else
           (case pull_request (data ev) of
              None \<Rightarrow> raised [] (KeyError ''pull_request'')
            | Some i \<Rightarrow>
                let by_pr_author = (user.id' (issue.user i) = user.id' (authored.user r)) in
                if by_pr_author then done_with []
                else if state r = ''changes_requested''
                then done_with [SetIssueStatus i ''awaiting_changes'']
                else if ''needs_reviewer'' \<in> label_names i
                then done_with [SetIssueStatus i ''awaiting_reviewer'']
                else done_with []))"

section \<open>Commands\<close>

definition NO_SELF_REVIEW_TEXT :: string where
  "NO_SELF_REVIEW_TEXT =
    ''The PR author cannot set the status to `needs_merger`. Please wait for an external review.'' @
    ''\<newline>\<newline>'' @
    ''If you are not the PR author and you are reading this, please review the [usage](https://github.com/timokau/marvin-mk2/blob/deployed/USAGE.md) of this bot. You may be able to help. Please make an honest attempt to resolve all outstanding issues before setting to `needs_merger`.''"

text \<open>
  \<^verbatim>\<open>triage_runner.runners\<close> is a dictionary from installation ids to runners, filled
  elsewhere; it is a parameter. The expression
  \<^verbatim>\<open>triage_runner.runners[event.data["installation"]["id"]]\<close> raises when the payload
  has no installation or the dictionary has no such id.
\<close>

definition lookup_runner :: "(int \<rightharpoonup> runner) \<Rightarrow> event \<Rightarrow> error + runner" where
  "lookup_runner runners ev =
    (case installation (data ev) of
       None \<Rightarrow> Inl (KeyError ''installation'')
     | Some inst \<Rightarrow>
         (case runners (installation.id' inst) of
            None \<Rightarrow> Inl (KeyErrorId (installation.id' inst))
          | Some r \<Rightarrow> Inr r))"

definition needs_reviewer_command :: "(int \<rightharpoonup> runner) \<Rightarrow> event \<Rightarrow> issue \<Rightarrow> outcome" where
  "needs_reviewer_command runners ev i =
    (case lookup_runner runners ev of
       Inl e \<Rightarrow> raised [SetIssueStatus i ''needs_reviewer'', Sleep 2] e
     | Inr r \<Rightarrow> done_with [SetIssueStatus i ''needs_reviewer'', Sleep 2, RunSoon r])"

definition awaiting_changes_command :: "issue \<Rightarrow> outcome" where
  "awaiting_changes_command i = done_with [SetIssueStatus i ''awaiting_changes'']"

definition awaiting_reviewer_command :: "issue \<Rightarrow> outcome" where
  "awaiting_reviewer_command i = done_with [SetIssueStatus i ''awaiting_reviewer'']"

definition needs_merger_command ::
  "(int \<rightharpoonup> runner) \<Rightarrow> event \<Rightarrow> issue \<Rightarrow> string \<Rightarrow> 'a authored_scheme \<Rightarrow> outcome" where
  "needs_merger_command runners ev i pull_request_url c =
    (let by_pr_author = (user.id' (issue.user i) = user.id' (authored.user c)) in
     if by_pr_author then done_with [Post (comments_url i) NO_SELF_REVIEW_TEXT]
     else
       (case lookup_runner runners ev of
          Inl e \<Rightarrow> raised [SetIssueStatus i ''needs_merger''] e
        | Inr r \<Rightarrow> done_with [SetIssueStatus i ''needs_merger'', RunSoon r]))"

definition awaiting_merger_command :: "issue \<Rightarrow> 'a authored_scheme \<Rightarrow> outcome" where
  "awaiting_merger_command i c =
    (let by_pr_author = (user.id' (issue.user i) = user.id' (authored.user c)) in
     if by_pr_author then done_with [Post (comments_url i) NO_SELF_REVIEW_TEXT]
     else done_with [SetIssueStatus i ''awaiting_merger''])"

section \<open>Registration\<close>

text \<open>
  The decorators \<^verbatim>\<open>@router.register(event, action=...)\<close> bind each handler to an event
  name and a value of the payload's \<^verbatim>\<open>action\<close>; the decorators
  \<^verbatim>\<open>@command_router.register_command(trigger)\<close> bind each command handler to its
  trigger. No two handlers are registered for the same key. An event or a trigger with
  no registration runs nothing.
\<close>

definition dispatch :: "scanner \<Rightarrow> event \<Rightarrow> outcome" where
  "dispatch find_cmds ev =
    (if event ev = ''pull_request'' \<and> action (data ev) = ''ready_for_review''
       then pull_request_ready_for_review ev
     else if event ev = ''pull_request'' \<and> action (data ev) = ''synchronize''
       then pull_request_synchronize ev
     else if event ev = ''pull_request''
             \<and> (action (data ev) = ''assigned'' \<or> action (data ev) = ''review_requested'')
       then pull_request_assigned ev
     else if (event ev = ''pull_request_review_comment'' \<or> event ev = ''issue_comment'')
             \<and> action (data ev) = ''created''
       then issue_comment_event find_cmds ev
     else if event ev = ''pull_request_review'' \<and> action (data ev) = ''submitted''
       then pull_request_review_submitted find_cmds ev
     else done_with [])"

record command_kwargs =
  kw_event :: event
  kw_issue :: issue
  kw_pull_request_url :: string
  kw_comment :: authored

definition run_command :: "(int \<rightharpoonup> runner) \<Rightarrow> string \<Rightarrow> command_kwargs \<Rightarrow> outcome" where
  "run_command runners trigger kw =
    (if trigger = ''/status needs_reviewer''
       then needs_reviewer_command runners (kw_event kw) (kw_issue kw)
     else if trigger = ''/status awaiting_changes''
       then awaiting_changes_command (kw_issue kw)
     else if trigger = ''/status awaiting_reviewer''
       then awaiting_reviewer_command (kw_issue kw)
     else if trigger = ''/status needs_merger''
       then needs_merger_command runners (kw_event kw) (kw_issue kw)
              (kw_pull_request_url kw) (kw_comment kw)
     else if trigger = ''/status awaiting_merger''
       then awaiting_merger_command (kw_issue kw) (kw_comment kw)
     else done_with [])"

section \<open>Reading an outcome\<close>

text \<open>
  The label transitions requested, the comments posted and the runners signalled by a
  handler, each in the order of the calls.
\<close>

fun transition_of :: "effect \<Rightarrow> (issue \<times> string) list" where
  "transition_of (SetIssueStatus i s) = [(i, s)]"
| "transition_of _ = []"

fun comment_of :: "effect \<Rightarrow> (string \<times> string) list" where
  "comment_of (Post url text) = [(url, text)]"
| "comment_of _ = []"

fun notified_of :: "effect \<Rightarrow> runner list" where
  "notified_of (RunSoon r) = [r]"
| "notified_of _ = []"

definition transitions :: "outcome \<Rightarrow> (issue \<times> string) list" where
  "transitions out = concat (map transition_of (fst out))"

definition comments_posted :: "outcome \<Rightarrow> (string \<times> string) list" where
  "comments_posted out = concat (map comment_of (fst out))"

definition notified :: "outcome \<Rightarrow> runner list" where
  "notified out = concat (map notified_of (fst out))"

definition contains :: "string \<Rightarrow> string \<Rightarrow> bool" where
  "contains text s = sublist s text"

section \<open>The command scanner of the specification\<close>

text \<open>The triggers of the \<^verbatim>\<open>register_command\<close> decorators, in the order of the source.\<close>

definition COMMANDS :: "string list" where
  "COMMANDS =
    [''/status needs_reviewer'', ''/status awaiting_changes'', ''/status awaiting_reviewer'',
     ''/status needs_merger'', ''/status awaiting_merger'']"

text \<open>
  Modelled from the spec: the scan behind \<^verbatim>\<open>command_router.find_commands\<close>, which is
  not part of \<^verbatim>\<open>status.py\<close>. It reports every non-overlapping literal occurrence of a
  trigger, in order of appearance. The counter is the number of characters still covered
  by the last occurrence found.
\<close>

fun scan_commands :: "string list \<Rightarrow> nat \<Rightarrow> string \<Rightarrow> string list" where
  "scan_commands ts k [] = []"
| "scan_commands ts (Suc k) (c # cs) = scan_commands ts k cs"
| "scan_commands ts 0 (c # cs) =
     (case find (\<lambda>t. prefix t (c # cs)) ts of
        None \<Rightarrow> scan_commands ts 0 cs
      | Some t \<Rightarrow> t # scan_commands ts (length t - 1) cs)"

text \<open>
  Modelled from the spec: \<^verbatim>\<open>command_router.find_commands\<close>, described as a pure scan
  of a text for the registered triggers.
\<close>

definition find_commands :: scanner where
  "find_commands text = scan_commands COMMANDS 0 text"

section \<open>The label store of the specification\<close>

text \<open>
  Modelled from the spec: the vocabulary of status labels, which \<^verbatim>\<open>status.py\<close> does not
  define.
\<close>

definition ISSUE_STATUS_LABELS :: "string list" where
  "ISSUE_STATUS_LABELS =
    [''needs_reviewer'', ''awaiting_reviewer'', ''awaiting_changes'',
     ''needs_merger'', ''awaiting_merger'']"

text \<open>
  Modelled from the spec: \<^verbatim>\<open>gh_util.set_issue_status\<close>, which is not part of
  \<^verbatim>\<open>status.py\<close>, as its effect on the label set of the issue. The specification describes
  it as replacing any status label of the issue by exactly the given status and leaving
  every other label untouched.
\<close>

definition set_issue_status :: "string \<Rightarrow> string set \<Rightarrow> string set" where
  "set_issue_status status ls = (ls - set ISSUE_STATUS_LABELS) \<union> {status}"

text \<open>The number of status labels in a label set.\<close>

definition status_count :: "string set \<Rightarrow> nat" where
  "status_count ls = length (filter (\<lambda>s. s \<in> ls) ISSUE_STATUS_LABELS)"

text \<open>
  The tracker holds the label set of every issue, by issue number. A call of the
  set-status operation changes the labels of its issue; posting a comment, sleeping and
  signalling a runner change no label. The set-status operation is a parameter.
\<close>

type_synonym tracker = "int \<Rightarrow> string set"

fun apply_effect :: "(string \<Rightarrow> string set \<Rightarrow> string set) \<Rightarrow> effect \<Rightarrow> tracker \<Rightarrow> tracker" where
  "apply_effect setter (SetIssueStatus i s) tr = tr(number i := setter s (tr (number i)))"
| "apply_effect setter _ tr = tr"

definition apply_effects ::
  "(string \<Rightarrow> string set \<Rightarrow> string set) \<Rightarrow> effect list \<Rightarrow> tracker \<Rightarrow> tracker" where
  "apply_effects setter es tr = fold (apply_effect setter) es tr"

text \<open>
  One unit of work is a webhook delivery routed to its handler, or a command found in a
  body and run with its keyword arguments.
\<close>

datatype invocation =
    Webhook event
  | Command string command_kwargs

fun handle :: "scanner \<Rightarrow> (int \<rightharpoonup> runner) \<Rightarrow> invocation \<Rightarrow> outcome" where
  "handle find_cmds runners (Webhook ev) = dispatch find_cmds ev"
| "handle find_cmds runners (Command trigger kw) = run_command runners trigger kw"

definition trace_of :: "scanner \<Rightarrow> (int \<rightharpoonup> runner) \<Rightarrow> invocation list \<Rightarrow> effect list" where
  "trace_of find_cmds runners ws = concat (map (\<lambda>w. fst (handle find_cmds runners w)) ws)"

section \<open>Example payloads\<close>

text \<open>Concrete payloads, used to run the handlers on.\<close>

definition pr_author :: user where "pr_author = \<lparr>user.id' = 7\<rparr>"
definition other_user :: user where "other_user = \<lparr>user.id' = 8\<rparr>"

definition example_pr :: "string list \<Rightarrow> issue" where
  "example_pr ls =
     \<lparr>number = 1, user = pr_author, labels = map (\<lambda>n. \<lparr>name = n\<rparr>) ls,
      comments_url = ''https://api.github.com/repos/o/r/issues/1/comments''\<rparr>"

definition example_data :: "string \<Rightarrow> event_data" where
  "example_data a =
     \<lparr>action = a, issue = None, pull_request = None, comment = None, review = None,
      installation = Some \<lparr>installation.id' = 3\<rparr>\<rparr>"

definition example_comment :: "user \<Rightarrow> string \<Rightarrow> comment" where
  "example_comment u b = \<lparr>authored.user = u, comment.body = b\<rparr>"

definition example_review :: "user \<Rightarrow> string option \<Rightarrow> string \<Rightarrow> review" where
  "example_review u b s = \<lparr>authored.user = u, review.body = b, state = s\<rparr>"

definition example_kwargs :: "user \<Rightarrow> command_kwargs" where
  "example_kwargs u =
     \<lparr>kw_event = \<lparr>event = ''issue_comment'', data = example_data ''created''\<rparr>,
      kw_issue = example_pr [''awaiting_reviewer''],
      kw_pull_request_url = ''https://api.github.com/repos/o/r/pulls/1'',
      kw_comment = \<lparr>authored.user = u\<rparr>\<rparr>"

section \<open>Properties\<close>

lemmas example_defs = pr_author_def other_user_def example_pr_def example_data_def
  example_comment_def example_review_def example_kwargs_def

text \<open>
  Claim C1. Whenever the command \<^verbatim>\<open>/status needs_merger\<close> or \<^verbatim>\<open>/status awaiting_merger\<close>
  is run with a comment whose author id is the id of the issue's author, no status is set,
  exactly one comment is posted, to the issue's comments URL and with the fixed rejection
  text, and no runner is signalled. When the ids differ, the requested status is set on
  the issue and no comment is posted.
\<close>

theorem self_review_guard:
  fixes kw :: command_kwargs
  assumes "trigger = ''/status needs_merger'' \<or> trigger = ''/status awaiting_merger''"
  shows "if user.id' (issue.user (kw_issue kw)) = user.id' (authored.user (kw_comment kw))
         then transitions (run_command runners trigger kw) = []
              \<and> comments_posted (run_command runners trigger kw)
                  = [(comments_url (kw_issue kw), NO_SELF_REVIEW_TEXT)]
              \<and> notified (run_command runners trigger kw) = []
         else transitions (run_command runners trigger kw)
                = [(kw_issue kw, if trigger = ''/status needs_merger''
                                 then ''needs_merger'' else ''awaiting_merger'')]
              \<and> comments_posted (run_command runners trigger kw) = []"
  using assms
  by (auto simp: run_command_def needs_merger_command_def awaiting_merger_command_def
        transitions_def comments_posted_def notified_def done_with_def raised_def
        split: sum.splits)

theorem self_review_guard_witness:
  "transitions (run_command [3 \<mapsto> 0] ''/status needs_merger'' (example_kwargs pr_author)) = []
   \<and> comments_posted (run_command [3 \<mapsto> 0] ''/status needs_merger'' (example_kwargs pr_author))
       = [(''https://api.github.com/repos/o/r/issues/1/comments'', NO_SELF_REVIEW_TEXT)]
   \<and> notified (run_command [3 \<mapsto> 0] ''/status needs_merger'' (example_kwargs pr_author)) = []
   \<and> transitions (run_command [3 \<mapsto> 0] ''/status awaiting_merger'' (example_kwargs pr_author)) = []
   \<and> comments_posted (run_command [3 \<mapsto> 0] ''/status awaiting_merger'' (example_kwargs pr_author))
       = [(''https://api.github.com/repos/o/r/issues/1/comments'', NO_SELF_REVIEW_TEXT)]
   \<and> transitions (run_command [3 \<mapsto> 0] ''/status needs_merger'' (example_kwargs other_user))
       = [(example_pr [''awaiting_reviewer''], ''needs_merger'')]
   \<and> transitions (run_command [3 \<mapsto> 0] ''/status awaiting_merger'' (example_kwargs other_user))
       = [(example_pr [''awaiting_reviewer''], ''awaiting_merger'')]"
  using self_review_guard [of "''/status needs_merger''" "example_kwargs pr_author" "[3 \<mapsto> 0]"]
        self_review_guard [of "''/status awaiting_merger''" "example_kwargs pr_author" "[3 \<mapsto> 0]"]
        self_review_guard [of "''/status needs_merger''" "example_kwargs other_user" "[3 \<mapsto> 0]"]
        self_review_guard [of "''/status awaiting_merger''" "example_kwargs other_user" "[3 \<mapsto> 0]"]
  by (simp add: example_defs)

text \<open>
  Claim C2. For a created issue comment or review comment, and for a submitted review,
  whose body holds at least one command according to the scanner, the handler returns
  at once: it makes no call at all, so no label transition is inferred.
\<close>

theorem command_precedence:
  assumes "(event ev = ''issue_comment'' \<or> event ev = ''pull_request_review_comment'')
             \<and> action (data ev) = ''created''
             \<and> (\<exists>c. comment (data ev) = Some c \<and> find_cmds (comment.body c) \<noteq> [])
           \<or> event ev = ''pull_request_review'' \<and> action (data ev) = ''submitted''
             \<and> (\<exists>r b. review (data ev) = Some r \<and> review.body r = Some b \<and> find_cmds b \<noteq> [])"
  shows "dispatch find_cmds ev = ([], None)"
  using assms
  by (auto simp: dispatch_def issue_comment_event_def pull_request_review_submitted_def
        done_with_def)

theorem command_precedence_witness:
  "dispatch find_commands
     \<lparr>event = ''issue_comment'',
      data = (example_data ''created'')
        \<lparr>issue := Some (example_pr [''needs_reviewer'']),
         comment := Some (example_comment other_user ''/status awaiting_changes'')\<rparr>\<rparr>
     = ([], None)
   \<and> dispatch find_commands
     \<lparr>event = ''pull_request_review'',
      data = (example_data ''submitted'')
        \<lparr>pull_request := Some (example_pr [''needs_reviewer'']),
         review := Some (example_review other_user (Some ''/status needs_merger'')
                           ''changes_requested'')\<rparr>\<rparr>
     = ([], None)"
proof -
  let ?e1 = "\<lparr>event = ''issue_comment'',
      data = (example_data ''created'')
        \<lparr>issue := Some (example_pr [''needs_reviewer'']),
         comment := Some (example_comment other_user ''/status awaiting_changes'')\<rparr>\<rparr>"
  let ?e2 = "\<lparr>event = ''pull_request_review'',
      data = (example_data ''submitted'')
        \<lparr>pull_request := Some (example_pr [''needs_reviewer'']),
         review := Some (example_review other_user (Some ''/status needs_merger'')
                           ''changes_requested'')\<rparr>\<rparr>"
  have c1: "find_commands ''/status awaiting_changes'' \<noteq> []"
    by (simp add: find_commands_def COMMANDS_def)
  have c2: "find_commands ''/status needs_merger'' \<noteq> []"
    by (simp add: find_commands_def COMMANDS_def)
  have "dispatch find_commands ?e1 = ([], None)"
    by (rule command_precedence) (simp add: example_defs c1)
  moreover have "dispatch find_commands ?e2 = ([], None)"
    by (rule command_precedence) (simp add: example_defs c2)
  ultimately show ?thesis by simp
qed

text \<open>
  Claim C3. A \<^verbatim>\<open>pull_request\<close> event with action \<^verbatim>\<open>ready_for_review\<close> sets the status
  \<^verbatim>\<open>needs_reviewer\<close> exactly when none of \<^verbatim>\<open>needs_merger\<close>, \<^verbatim>\<open>awaiting_reviewer\<close>,
  \<^verbatim>\<open>awaiting_merger\<close> is among the labels of the pull request; otherwise it sets nothing.
\<close>

theorem ready_for_review_transition:
  assumes "event ev = ''pull_request''" and "action (data ev) = ''ready_for_review''"
    and "pull_request (data ev) = Some i"
  shows "transitions (dispatch find_cmds ev) =
          (if ''needs_merger'' \<notin> label_names i \<and> ''awaiting_reviewer'' \<notin> label_names i
              \<and> ''awaiting_merger'' \<notin> label_names i
           then [(i, ''needs_reviewer'')] else [])"
  using assms
  by (simp add: dispatch_def pull_request_ready_for_review_def transitions_def done_with_def)

theorem ready_for_review_transition_witness:
  "transitions (dispatch find_commands
      \<lparr>event = ''pull_request'',
       data = (example_data ''ready_for_review'')\<lparr>pull_request := Some (example_pr [])\<rparr>\<rparr>)
     = [(example_pr [], ''needs_reviewer'')]
   \<and> transitions (dispatch find_commands
      \<lparr>event = ''pull_request'',
       data = (example_data ''ready_for_review'')
                \<lparr>pull_request := Some (example_pr [''awaiting_merger''])\<rparr>\<rparr>)
     = []"
  using ready_for_review_transition [of
      "\<lparr>event = ''pull_request'',
        data = (example_data ''ready_for_review'')\<lparr>pull_request := Some (example_pr [])\<rparr>\<rparr>"
      "example_pr []" find_commands]
    ready_for_review_transition [of
      "\<lparr>event = ''pull_request'',
        data = (example_data ''ready_for_review'')
                 \<lparr>pull_request := Some (example_pr [''awaiting_merger''])\<rparr>\<rparr>"
      "example_pr [''awaiting_merger'']" find_commands]
  by (simp add: example_defs label_names_def)

text \<open>
  Claim C4. A submitted review without a command in its body (or without a body), by
  someone other than the author of the pull request, sets \<^verbatim>\<open>awaiting_changes\<close> when its
  state is \<^verbatim>\<open>changes_requested\<close>, whatever the labels are; otherwise it sets
  \<^verbatim>\<open>awaiting_reviewer\<close> when \<^verbatim>\<open>needs_reviewer\<close> is among the labels; otherwise nothing.
  The first case has priority when both apply.
\<close>

theorem review_submitted_transition:
  assumes "event ev = ''pull_request_review''" and "action (data ev) = ''submitted''"
    and "review (data ev) = Some r" and "pull_request (data ev) = Some i"
    and "\<forall>b. review.body r = Some b \<longrightarrow> find_cmds b = []"
    and "user.id' (issue.user i) \<noteq> user.id' (authored.user r)"
  shows "transitions (dispatch find_cmds ev) =
          (if state r = ''changes_requested'' then [(i, ''awaiting_changes'')]
           else if ''needs_reviewer'' \<in> label_names i then [(i, ''awaiting_reviewer'')]
           else [])"
  using assms
  by (simp add: dispatch_def pull_request_review_submitted_def transitions_def done_with_def
        split: option.splits)

theorem review_submitted_transition_witness:
  "transitions (dispatch find_commands
      \<lparr>event = ''pull_request_review'',
       data = (example_data ''submitted'')
         \<lparr>pull_request := Some (example_pr [''needs_reviewer'']),
          review := Some (example_review other_user (Some ''Please rename this.'')
                            ''changes_requested'')\<rparr>\<rparr>)
     = [(example_pr [''needs_reviewer''], ''awaiting_changes'')]
   \<and> transitions (dispatch find_commands
      \<lparr>event = ''pull_request_review'',
       data = (example_data ''submitted'')
         \<lparr>pull_request := Some (example_pr [''needs_reviewer'']),
          review := Some (example_review other_user (Some ''Looks fine.'') ''commented'')\<rparr>\<rparr>)
     = [(example_pr [''needs_reviewer''], ''awaiting_reviewer'')]
   \<and> transitions (dispatch find_commands
      \<lparr>event = ''pull_request_review'',
       data = (example_data ''submitted'')
         \<lparr>pull_request := Some (example_pr [''awaiting_changes'']),
          review := Some (example_review other_user None ''approved'')\<rparr>\<rparr>)
     = []"
proof -
  have n1: "find_commands ''Please rename this.'' = []"
    by (simp add: find_commands_def COMMANDS_def)
  have n2: "find_commands ''Looks fine.'' = []"
    by (simp add: find_commands_def COMMANDS_def)
  show ?thesis
    using review_submitted_transition [of
        "\<lparr>event = ''pull_request_review'',
          data = (example_data ''submitted'')
            \<lparr>pull_request := Some (example_pr [''needs_reviewer'']),
             review := Some (example_review other_user (Some ''Please rename this.'')
                               ''changes_requested'')\<rparr>\<rparr>"
        "example_review other_user (Some ''Please rename this.'') ''changes_requested''"
        "example_pr [''needs_reviewer'']" find_commands]
      review_submitted_transition [of
        "\<lparr>event = ''pull_request_review'',
          data = (example_data ''submitted'')
            \<lparr>pull_request := Some (example_pr [''needs_reviewer'']),
             review := Some (example_review other_user (Some ''Looks fine.'') ''commented'')\<rparr>\<rparr>"
        "example_review other_user (Some ''Looks fine.'') ''commented''"
        "example_pr [''needs_reviewer'']" find_commands]
      review_submitted_transition [of
        "\<lparr>event = ''pull_request_review'',
          data = (example_data ''submitted'')
            \<lparr>pull_request := Some (example_pr [''awaiting_changes'']),
             review := Some (example_review other_user None ''approved'')\<rparr>\<rparr>"
        "example_review other_user None ''approved''"
        "example_pr [''awaiting_changes'']" find_commands]
    by (simp add: example_defs label_names_def n1 n2)
qed

text \<open>
  Claim C5. A submitted review without a command in its body, by the author of the pull
  request, makes no call at all, whatever its state and the labels are.
\<close>

theorem self_review_no_transition:
  assumes "event ev = ''pull_request_review''" and "action (data ev) = ''submitted''"
    and "review (data ev) = Some r" and "pull_request (data ev) = Some i"
    and "\<forall>b. review.body r = Some b \<longrightarrow> find_cmds b = []"
    and "user.id' (issue.user i) = user.id' (authored.user r)"
  shows "dispatch find_cmds ev = ([], None)"
  using assms
  by (simp add: dispatch_def pull_request_review_submitted_def done_with_def
        split: option.splits)

theorem self_review_no_transition_witness:
  "dispatch find_commands
      \<lparr>event = ''pull_request_review'',
       data = (example_data ''submitted'')
         \<lparr>pull_request := Some (example_pr [''needs_reviewer'']),
          review := Some (example_review pr_author (Some ''Note the new flag.'')
                            ''changes_requested'')\<rparr>\<rparr>
     = ([], None)"
proof -
  have n: "find_commands ''Note the new flag.'' = []"
    by (simp add: find_commands_def COMMANDS_def)
  show ?thesis
    by (rule self_review_no_transition [where
          r = "example_review pr_author (Some ''Note the new flag.'') ''changes_requested''"
          and i = "example_pr [''needs_reviewer'']"])
       (simp_all add: example_defs n)
qed

text \<open>
  Claim C6. A created issue comment or review comment without a command in its body sets
  \<^verbatim>\<open>awaiting_reviewer\<close> when the commenter is the author and \<^verbatim>\<open>awaiting_changes\<close> is
  among the labels, or when the commenter is not the author and \<^verbatim>\<open>needs_reviewer\<close> is
  among the labels; in every other case it sets nothing. The issue is the payload's
  \<^verbatim>\<open>issue\<close> when it has one and its \<^verbatim>\<open>pull_request\<close> otherwise.
\<close>

theorem comment_created_transition:
  assumes "event ev = ''issue_comment'' \<or> event ev = ''pull_request_review_comment''"
    and "action (data ev) = ''created''"
    and "comment (data ev) = Some c" and "find_cmds (comment.body c) = []"
    and "issue (data ev) = Some i \<or> issue (data ev) = None \<and> pull_request (data ev) = Some i"
  shows "transitions (dispatch find_cmds ev) =
          (if user.id' (authored.user c) = user.id' (issue.user i)
              \<and> ''awaiting_changes'' \<in> label_names i
           then [(i, ''awaiting_reviewer'')]
           else if user.id' (authored.user c) \<noteq> user.id' (issue.user i)
              \<and> ''needs_reviewer'' \<in> label_names i
           then [(i, ''awaiting_reviewer'')]
           else [])"
  using assms
  by (auto simp: dispatch_def issue_comment_event_def transitions_def done_with_def)

theorem comment_created_transition_witness:
  "transitions (dispatch find_commands
      \<lparr>event = ''issue_comment'',
       data = (example_data ''created'')
         \<lparr>issue := Some (example_pr [''awaiting_changes'']),
          comment := Some (example_comment pr_author ''Done, please look again.'')\<rparr>\<rparr>)
     = [(example_pr [''awaiting_changes''], ''awaiting_reviewer'')]
   \<and> transitions (dispatch find_commands
      \<lparr>event = ''pull_request_review_comment'',
       data = (example_data ''created'')
         \<lparr>pull_request := Some (example_pr [''needs_reviewer'']),
          comment := Some (example_comment other_user ''Why this change?'')\<rparr>\<rparr>)
     = [(example_pr [''needs_reviewer''], ''awaiting_reviewer'')]
   \<and> transitions (dispatch find_commands
      \<lparr>event = ''issue_comment'',
       data = (example_data ''created'')
         \<lparr>issue := Some (example_pr [''needs_reviewer'']),
          comment := Some (example_comment pr_author ''Done, please look again.'')\<rparr>\<rparr>)
     = []"
proof -
  have n1: "find_commands ''Done, please look again.'' = []"
    by (simp add: find_commands_def COMMANDS_def)
  have n2: "find_commands ''Why this change?'' = []"
    by (simp add: find_commands_def COMMANDS_def)
  show ?thesis
    using comment_created_transition [of
        "\<lparr>event = ''issue_comment'',
          data = (example_data ''created'')
            \<lparr>issue := Some (example_pr [''awaiting_changes'']),
             comment := Some (example_comment pr_author ''Done, please look again.'')\<rparr>\<rparr>"
        "example_comment pr_author ''Done, please look again.''" find_commands
        "example_pr [''awaiting_changes'']"]
      comment_created_transition [of
        "\<lparr>event = ''pull_request_review_comment'',
          data = (example_data ''created'')
            \<lparr>pull_request := Some (example_pr [''needs_reviewer'']),
             comment := Some (example_comment other_user ''Why this change?'')\<rparr>\<rparr>"
        "example_comment other_user ''Why this change?''" find_commands
        "example_pr [''needs_reviewer'']"]
      comment_created_transition [of
        "\<lparr>event = ''issue_comment'',
          data = (example_data ''created'')
            \<lparr>issue := Some (example_pr [''needs_reviewer'']),
             comment := Some (example_comment pr_author ''Done, please look again.'')\<rparr>\<rparr>"
        "example_comment pr_author ''Done, please look again.''" find_commands
        "example_pr [''needs_reviewer'']"]
    by (simp add: example_defs label_names_def n1 n2)
qed

subsection \<open>Signals to the triage runner\<close>

lemma notified_done_with_transition [simp]:
  "notified (done_with []) = []"
  "notified (done_with [SetIssueStatus i s]) = []"
  "notified (raised [] e) = []"
  by (simp_all add: notified_def done_with_def raised_def)

lemma notified_ready_for_review: "notified (pull_request_ready_for_review ev) = []"
  by (simp add: pull_request_ready_for_review_def split: option.splits)

lemma notified_synchronize: "notified (pull_request_synchronize ev) = []"
  by (simp add: pull_request_synchronize_def split: option.splits)

lemma notified_assigned: "notified (pull_request_assigned ev) = []"
  by (simp add: pull_request_assigned_def split: option.splits)

lemma notified_issue_comment: "notified (issue_comment_event find_cmds ev) = []"
  by (simp add: issue_comment_event_def Let_def split: option.splits)

lemma notified_review_submitted: "notified (pull_request_review_submitted find_cmds ev) = []"
  by (simp add: pull_request_review_submitted_def Let_def split: option.splits)

lemma notified_dispatch: "notified (dispatch find_cmds ev) = []"
  by (simp add: dispatch_def notified_ready_for_review notified_synchronize notified_assigned
        notified_issue_comment notified_review_submitted)

lemma notified_run_command:
  "notified (run_command runners trigger kw) =
     (if trigger = ''/status needs_reviewer''
         \<or> trigger = ''/status needs_merger''
           \<and> user.id' (issue.user (kw_issue kw)) \<noteq> user.id' (authored.user (kw_comment kw))
      then (case lookup_runner runners (kw_event kw) of Inl e \<Rightarrow> [] | Inr r \<Rightarrow> [r])
      else [])"
  by (simp add: run_command_def needs_reviewer_command_def awaiting_changes_command_def
        awaiting_reviewer_command_def needs_merger_command_def awaiting_merger_command_def
        notified_def done_with_def raised_def split: sum.splits)

text \<open>
  No routed event signals a runner. Of the commands, only \<^verbatim>\<open>/status needs_reviewer\<close> and
  \<^verbatim>\<open>/status needs_merger\<close> by someone other than the author do, and they signal the runner
  registered for the installation of the event.
\<close>

lemma notified_exactly:
  "notified (handle find_cmds runners w) =
    (case w of
       Webhook ev \<Rightarrow> []
     | Command trigger kw \<Rightarrow>
         if trigger = ''/status needs_reviewer''
            \<or> trigger = ''/status needs_merger''
              \<and> user.id' (issue.user (kw_issue kw)) \<noteq> user.id' (authored.user (kw_comment kw))
         then (case lookup_runner runners (kw_event kw) of Inl e \<Rightarrow> [] | Inr r \<Rightarrow> [r])
         else [])"
  by (cases w) (simp_all only: handle.simps invocation.case notified_dispatch notified_run_command)

lemma needs_merger_never_sleeps:
  "Sleep n \<notin> set (fst (run_command runners ''/status needs_merger'' kw))"
  by (simp add: run_command_def needs_merger_command_def done_with_def raised_def
        split: sum.splits)

text \<open>
  Claim C7. The runner is to be signalled only after a settle delay of about two seconds
  following the label mutation. The command \<^verbatim>\<open>/status needs_reviewer\<close> sleeps two seconds
  between the two calls. The command \<^verbatim>\<open>/status needs_merger\<close>, run by someone other than
  the author, signals the runner directly after the label mutation, with no sleep.
\<close>

theorem needs_merger_without_settle_delay:
  "run_command [3 \<mapsto> 0] ''/status needs_merger'' (example_kwargs other_user)
     = ([SetIssueStatus (example_pr [''awaiting_reviewer'']) ''needs_merger'', RunSoon 0], None)
   \<and> run_command [3 \<mapsto> 0] ''/status needs_reviewer'' (example_kwargs other_user)
     = ([SetIssueStatus (example_pr [''awaiting_reviewer'']) ''needs_reviewer'', Sleep 2,
         RunSoon 0], None)"
  by (simp add: run_command_def needs_merger_command_def needs_reviewer_command_def
        lookup_runner_def done_with_def example_defs)

subsection \<open>One status label at a time\<close>

lemma set_issue_status_count:
  "status_count (set_issue_status s ls) = (if s \<in> set ISSUE_STATUS_LABELS then 1 else 0)"
  by (auto simp: status_count_def set_issue_status_def ISSUE_STATUS_LABELS_def)

lemma set_issue_status_exclusive: "status_count (set_issue_status s ls) \<le> 1"
  by (simp add: set_issue_status_count)

lemma apply_effect_touched:
  assumes "\<forall>s ls. status_count (setter s ls) \<le> 1"
  shows "apply_effect setter e tr n = tr n \<or> status_count (apply_effect setter e tr n) \<le> 1"
  using assms by (cases e) auto

lemma apply_effects_touched:
  assumes "\<forall>s ls. status_count (setter s ls) \<le> 1"
  shows "apply_effects setter es tr n = tr n \<or> status_count (apply_effects setter es tr n) \<le> 1"
proof (induction es arbitrary: tr)
  case Nil
  then show ?case by (simp add: apply_effects_def)
next
  case (Cons e es)
  let ?tr = "apply_effect setter e tr"
  have step: "apply_effects setter (e # es) tr = apply_effects setter es ?tr"
    by (simp add: apply_effects_def)
  from Cons.IH [of ?tr]
  show ?case
  proof
    assume same: "apply_effects setter es ?tr n = ?tr n"
    from apply_effect_touched [OF assms, of e tr n] show ?thesis
      using same step by auto
  next
    assume "status_count (apply_effects setter es ?tr n) \<le> 1"
    then show ?thesis using step by simp
  qed
qed

text \<open>
  Claim C8. Let the set-status operation be exclusive: whatever the labels were, at most
  one status label is present after it. Then, at every point of the processing of any
  sequence of webhook deliveries and commands (after every prefix of the calls they
  make), an issue that started with at most one status label carries at most one; and
  whatever it started with, its labels are either still the initial ones or hold at most
  one status label.
\<close>

theorem at_most_one_status:
  assumes "\<forall>s ls. status_count (setter s ls) \<le> 1"
  shows "(status_count (tr n) \<le> 1 \<longrightarrow>
            status_count
              (apply_effects setter (take k (trace_of find_cmds runners ws)) tr n) \<le> 1)
         \<and> (apply_effects setter (take k (trace_of find_cmds runners ws)) tr n = tr n
            \<or> status_count
                (apply_effects setter (take k (trace_of find_cmds runners ws)) tr n) \<le> 1)"
  using apply_effects_touched [OF assms, of "take k (trace_of find_cmds runners ws)" tr n]
  by auto

theorem at_most_one_status_witness:
  "status_count
     (apply_effects set_issue_status
        (take 3 (trace_of find_commands [3 \<mapsto> 0]
           [Command ''/status awaiting_changes'' (example_kwargs other_user),
            Webhook \<lparr>event = ''pull_request'',
                     data = (example_data ''synchronize'')
                       \<lparr>pull_request := Some (example_pr [''awaiting_changes''])\<rparr>\<rparr>,
            Command ''/status needs_merger'' (example_kwargs other_user)]))
        (\<lambda>n. {''bug'', ''needs_reviewer''}) 1) \<le> 1"
proof -
  have excl: "\<forall>s ls. status_count (set_issue_status s ls) \<le> 1"
    by (intro allI set_issue_status_exclusive)
  have init: "status_count {''bug'', ''needs_reviewer''} \<le> 1"
    by (simp add: status_count_def ISSUE_STATUS_LABELS_def)
  from at_most_one_status [OF excl, of "\<lambda>n. {''bug'', ''needs_reviewer''}" 1] init
  show ?thesis by blast
qed

subsection \<open>The rejection text\<close>

lemma rejection_text_omits_awaiting_merger:
  "\<not> contains NO_SELF_REVIEW_TEXT ''awaiting_merger''"
  by code_simp

lemma rejection_text_first_sentence:
  "contains NO_SELF_REVIEW_TEXT ''The PR author cannot set the status to `needs_merger`.''"
  by code_simp

lemma rejection_text_last_sentence:
  "contains NO_SELF_REVIEW_TEXT
     ''Please make an honest attempt to resolve all outstanding issues before setting to `needs_merger`.''"
  by code_simp

lemma guarded_commands_same_comments:
  "comments_posted (run_command runners ''/status needs_merger'' kw)
     = comments_posted (run_command runners ''/status awaiting_merger'' kw)"
  by (simp add: run_command_def needs_merger_command_def awaiting_merger_command_def
        comments_posted_def done_with_def raised_def split: sum.splits)

text \<open>
  Claim C9. The rejection text is to name both target statuses, \<^verbatim>\<open>needs_merger\<close> and
  \<^verbatim>\<open>awaiting_merger\<close>. The command \<^verbatim>\<open>/status awaiting_merger\<close>, run by the author of the
  pull request, posts the one text shared with \<^verbatim>\<open>/status needs_merger\<close>. That text says
  that the author cannot set the status to \<^verbatim>\<open>needs_merger\<close> and asks to resolve all
  outstanding issues before setting to \<^verbatim>\<open>needs_merger\<close>; the status asked for,
  \<^verbatim>\<open>awaiting_merger\<close>, does not occur in it.
\<close>

theorem awaiting_merger_reply_names_needs_merger:
  "comments_posted (run_command [3 \<mapsto> 0] ''/status awaiting_merger'' (example_kwargs pr_author))
     = [(''https://api.github.com/repos/o/r/issues/1/comments'', NO_SELF_REVIEW_TEXT)]
   \<and> comments_posted (run_command [3 \<mapsto> 0] ''/status needs_merger'' (example_kwargs pr_author))
     = [(''https://api.github.com/repos/o/r/issues/1/comments'', NO_SELF_REVIEW_TEXT)]
   \<and> contains NO_SELF_REVIEW_TEXT ''The PR author cannot set the status to `needs_merger`.''
   \<and> contains NO_SELF_REVIEW_TEXT
       ''Please make an honest attempt to resolve all outstanding issues before setting to `needs_merger`.''
   \<and> \<not> contains NO_SELF_REVIEW_TEXT ''awaiting_merger''"
proof -
  have reply: "comments_posted
      (run_command [3 \<mapsto> 0] ''/status awaiting_merger'' (example_kwargs pr_author))
     = [(''https://api.github.com/repos/o/r/issues/1/comments'', NO_SELF_REVIEW_TEXT)]"
    by (simp add: run_command_def awaiting_merger_command_def comments_posted_def
          done_with_def example_defs)
  have sibling: "comments_posted
      (run_command [3 \<mapsto> 0] ''/status needs_merger'' (example_kwargs pr_author))
     = [(''https://api.github.com/repos/o/r/issues/1/comments'', NO_SELF_REVIEW_TEXT)]"
    using reply by (simp only: guarded_commands_same_comments)
  from reply sibling rejection_text_first_sentence rejection_text_last_sentence
    rejection_text_omits_awaiting_merger
  show ?thesis by blast
qed

subsection \<open>A review without a body\<close>

text \<open>
  Claim C10. For a submitted review whose body is \<^verbatim>\<open>null\<close>, the outcome of the handler
  does not depend on the scanner: it is the outcome under a scanner that never finds a
  command. The handler raises nothing, and its transition is inferred from the reviewer,
  the state of the review and the labels.
\<close>

theorem null_review_body:
  assumes "event ev = ''pull_request_review''" and "action (data ev) = ''submitted''"
    and "review (data ev) = Some r" and "review.body r = None"
    and "pull_request (data ev) = Some i"
  shows "dispatch find_cmds ev = dispatch (\<lambda>text. []) ev
         \<and> snd (dispatch find_cmds ev) = None
         \<and> transitions (dispatch find_cmds ev) =
             (if user.id' (issue.user i) = user.id' (authored.user r) then []
              else if state r = ''changes_requested'' then [(i, ''awaiting_changes'')]
              else if ''needs_reviewer'' \<in> label_names i then [(i, ''awaiting_reviewer'')]
              else [])"
  using assms
  by (simp add: dispatch_def pull_request_review_submitted_def transitions_def done_with_def)

theorem null_review_body_witness:
  "dispatch (\<lambda>text. [''/status needs_merger''])
      \<lparr>event = ''pull_request_review'',
       data = (example_data ''submitted'')
         \<lparr>pull_request := Some (example_pr [''needs_reviewer'']),
          review := Some (example_review other_user None ''approved'')\<rparr>\<rparr>
     = dispatch (\<lambda>text. [])
      \<lparr>event = ''pull_request_review'',
       data = (example_data ''submitted'')
         \<lparr>pull_request := Some (example_pr [''needs_reviewer'']),
          review := Some (example_review other_user None ''approved'')\<rparr>\<rparr>
   \<and> snd (dispatch (\<lambda>text. [''/status needs_merger''])
      \<lparr>event = ''pull_request_review'',
       data = (example_data ''submitted'')
         \<lparr>pull_request := Some (example_pr [''needs_reviewer'']),
          review := Some (example_review other_user None ''approved'')\<rparr>\<rparr>) = None
   \<and> transitions (dispatch (\<lambda>text. [''/status needs_merger''])
      \<lparr>event = ''pull_request_review'',
       data = (example_data ''submitted'')
         \<lparr>pull_request := Some (example_pr [''needs_reviewer'']),
          review := Some (example_review other_user None ''approved'')\<rparr>\<rparr>)
     = [(example_pr [''needs_reviewer''], ''awaiting_reviewer'')]"
proof -
  let ?r = "example_review other_user None ''approved''"
  let ?i = "example_pr [''needs_reviewer'']"
  let ?ev = "\<lparr>event = ''pull_request_review'',
       data = (example_data ''submitted'')\<lparr>pull_request := Some ?i, review := Some ?r\<rparr>\<rparr>"
  let ?f = "\<lambda>text::string. [''/status needs_merger'']"
  have guard: "(if user.id' (issue.user ?i) = user.id' (authored.user ?r) then []
              else if state ?r = ''changes_requested'' then [(?i, ''awaiting_changes'')]
              else if ''needs_reviewer'' \<in> label_names ?i then [(?i, ''awaiting_reviewer'')]
              else []) = [(?i, ''awaiting_reviewer'')]"
    by (simp add: example_defs label_names_def)
  have "dispatch ?f ?ev = dispatch (\<lambda>text. []) ?ev
         \<and> snd (dispatch ?f ?ev) = None
         \<and> transitions (dispatch ?f ?ev) =
             (if user.id' (issue.user ?i) = user.id' (authored.user ?r) then []
              else if state ?r = ''changes_requested'' then [(?i, ''awaiting_changes'')]
              else if ''needs_reviewer'' \<in> label_names ?i then [(?i, ''awaiting_reviewer'')]
              else [])"
    by (rule null_review_body) (simp_all add: example_defs)
  then show ?thesis
    unfolding guard .
qed

end
